theory Spec2Isabelle
  imports Complex_Main "HOL-Library.Word"
begin

section \<open>Go values used by package lora\<close>

type_synonym byte = "8 word"

text \<open>
  A Go string or byte slice holding text is a list of bytes; \<open>bytes_of\<close> turns text written
  as an Isabelle string into the byte slice a caller passes.
\<close>

definition bytes_of :: "string \<Rightarrow> byte list" where
  "bytes_of s = map (\<lambda>c. of_nat (of_char c)) s"

text \<open>
  \<open>time.Time\<close> is a struct of three words (wall clock, monotonic extension, location
  pointer).  The package never looks inside it: it only stores it and hands it to
  \<open>Format\<close>.
\<close>

datatype time_Time = MkTime (wall: "64 word") (ext: "64 word") (loc: nat)

text \<open>
  The dynamic values an \<open>interface{}\<close> field holds after JSON decoding: nil, bool,
  float64, string, slice and map.  A float is represented by the real number it denotes.
\<close>

datatype iface =
    INil
  | IBool bool
  | IFloat64 real
  | IString string
  | ISlice "iface list"
  | IMap "(string \<times> iface) list"

text \<open>
  Library functions whose results the package only passes on (base64 in both directions,
  RFC 3339 time formatting, fixed-precision float formatting \<open>%.<p>f\<close>) are parameters
  of the model.  So is the float arithmetic that the model does not compute: the float64
  product and the float32 quotient, each rounded and then converted (\<open>uint32(x * y)\<close>,
  \<open>uint8(x / y)\<close>), and the conversion of a float whose truncation does not fit the target
  type, which Go leaves to the implementation.
\<close>

datatype b64_error = CorruptInputError int

record golib =
  base64_DecodeString :: "string \<Rightarrow> b64_error + byte list"
  base64_EncodeToString :: "byte list \<Rightarrow> string"
  time_Format_RFC3339 :: "time_Time \<Rightarrow> string"
  fmt_f :: "nat \<Rightarrow> real \<Rightarrow> string"
  uint32_float64_mul :: "real \<Rightarrow> real \<Rightarrow> 32 word"
  uint32_float64_unfit :: "real \<Rightarrow> 32 word"
  uint8_float32_div :: "real \<Rightarrow> real \<Rightarrow> 8 word"

text \<open>
  \<open>uint32(x)\<close> for a float64: the fraction is discarded (truncation towards zero); when
  the truncated value is not a uint32 the result is the implementation's.
\<close>

definition float_trunc :: "real \<Rightarrow> int" where
  "float_trunc x = (if x < 0 then \<lceil>x\<rceil> else \<lfloor>x\<rfloor>)"

definition uint32_of_float :: "golib \<Rightarrow> real \<Rightarrow> 32 word" where
  "uint32_of_float L x =
     (if - 1 < x \<and> x < 2 ^ 32 then word_of_int (float_trunc x)
      else uint32_float64_unfit L x)"

text \<open>
  \<open>uint32(x * y)\<close> in float64 and \<open>uint8(x / y)\<close> in float32.  A zero operand gives the
  float zero with no rounding, and zero converts to 0; every other case is the
  parameter's.
\<close>

definition uint32_of_product :: "golib \<Rightarrow> real \<Rightarrow> real \<Rightarrow> 32 word" where
  "uint32_of_product L x y = (if x = 0 \<or> y = 0 then 0 else uint32_float64_mul L x y)"

definition uint8_of_quotient :: "golib \<Rightarrow> real \<Rightarrow> real \<Rightarrow> 8 word" where
  "uint8_of_quotient L x y = (if x = 0 \<and> y \<noteq> 0 then 0 else uint8_float32_div L x y)"

section \<open>fmt.Sscanf with the format SF%dBW%d\<close>

text \<open>
  The errors of the scanner: \<open>io.EOF\<close> when a verb finds no input left,
  \<open>io.ErrUnexpectedEOF\<close> when a literal of the format does, and the scanner's own
  messages.
\<close>

datatype scan_error =
    EOF
  | UnexpectedEOF
  | InputMismatch
  | UnexpectedNewline
  | ExpectedInteger
  | ValueOutOfRange
  | IntegerOverflow

text \<open>A literal character of the format must be the next input character.\<close>

definition literal :: "char \<Rightarrow> string \<Rightarrow> scan_error + string" where
  "literal c s = (case s of [] \<Rightarrow> Inl UnexpectedEOF
                  | x # xs \<Rightarrow> if x = c then Inr xs else Inl InputMismatch)"

text \<open>
  Length in bytes of a leading space rune other than newline (0 when there is none):
  the ASCII spaces and the UTF-8 encodings of U+0085, U+00A0, U+1680, U+2000 to U+200A,
  U+2028, U+2029, U+202F, U+205F and U+3000.
\<close>

definition space_len :: "string \<Rightarrow> nat" where
  "space_len s =
     (if take 1 s \<in> {[CHR 0x09], [CHR 0x0B], [CHR 0x0C], [CHR 0x0D], [CHR 0x20]} then 1
      else if take 2 s \<in> {[CHR 0xC2, CHR 0x85], [CHR 0xC2, CHR 0xA0]} then 2
      else if take 3 s \<in>
          {[CHR 0xE1, CHR 0x9A, CHR 0x80],
           [CHR 0xE2, CHR 0x80, CHR 0x80], [CHR 0xE2, CHR 0x80, CHR 0x81],
           [CHR 0xE2, CHR 0x80, CHR 0x82], [CHR 0xE2, CHR 0x80, CHR 0x83],
           [CHR 0xE2, CHR 0x80, CHR 0x84], [CHR 0xE2, CHR 0x80, CHR 0x85],
           [CHR 0xE2, CHR 0x80, CHR 0x86], [CHR 0xE2, CHR 0x80, CHR 0x87],
           [CHR 0xE2, CHR 0x80, CHR 0x88], [CHR 0xE2, CHR 0x80, CHR 0x89],
           [CHR 0xE2, CHR 0x80, CHR 0x8A],
           [CHR 0xE2, CHR 0x80, CHR 0xA8], [CHR 0xE2, CHR 0x80, CHR 0xA9],
           [CHR 0xE2, CHR 0x80, CHR 0xAF], [CHR 0xE2, CHR 0x81, CHR 0x9F],
           [CHR 0xE3, CHR 0x80, CHR 0x80]} then 3
      else 0)"

text \<open>
  Before a \<open>%d\<close> verb the scanner skips spaces; Sscanf does not take a newline for a
  space and fails on it.
\<close>

function SkipSpace :: "string \<Rightarrow> scan_error + string" where
  "SkipSpace s =
     (if s = [] then Inr []
      else if hd s = CHR 0x0A then Inl UnexpectedNewline
      else if space_len s = 0 then Inr s
      else SkipSpace (drop (space_len s) s))"
  by pat_completeness auto
termination
  by (relation "measure length") auto

declare SkipSpace.simps [simp del]

definition isDigit :: "char \<Rightarrow> bool" where
  "isDigit c = (c \<in> set ''0123456789'')"

definition digits_val :: "string \<Rightarrow> nat" where
  "digits_val tok = foldl (\<lambda>a c. 10 * a + (of_char c - 48)) 0 tok"

text \<open>The token of a number: the longest run of decimal digits, at least one.\<close>

definition scanNumber :: "string \<Rightarrow> scan_error + (string \<times> string)" where
  "scanNumber s =
     (case s of [] \<Rightarrow> Inl EOF
      | c # _ \<Rightarrow> if isDigit c then Inr (takeWhile isDigit s, dropWhile isDigit s)
                 else Inl ExpectedInteger)"

text \<open>\<open>%d\<close> into a \<open>*uint32\<close>: no sign; the value must fit 64 bits, then 32 bits.\<close>

definition scanUint32 :: "string \<Rightarrow> scan_error + (32 word \<times> string)" where
  "scanUint32 s =
     (case SkipSpace s of Inl e \<Rightarrow> Inl e
      | Inr s1 \<Rightarrow>
          (case scanNumber s1 of Inl e \<Rightarrow> Inl e
           | Inr (tok, rest) \<Rightarrow>
               let i = digits_val tok in
               if 2 ^ 64 \<le> i then Inl ValueOutOfRange
               else if 2 ^ 32 \<le> i then Inl IntegerOverflow
               else Inr (of_nat i, rest)))"

text \<open>
  \<open>%d\<close> into a \<open>*int\<close>: an optional sign, then the digits.  \<open>int\<close> is taken as 64
  bits wide, so the only range check is that of the 64-bit parse.
\<close>

definition scanInt :: "string \<Rightarrow> scan_error + (int \<times> string)" where
  "scanInt s =
     (case SkipSpace s of Inl e \<Rightarrow> Inl e
      | Inr s1 \<Rightarrow>
          (case s1 of [] \<Rightarrow> Inl EOF
           | c # cs \<Rightarrow>
               let s2 = (if c = CHR ''+'' \<or> c = CHR ''-'' then cs else s1) in
               (case scanNumber s2 of Inl e \<Rightarrow> Inl e
                | Inr (tok, rest) \<Rightarrow>
                    let i = int (digits_val tok) in
                    if c = CHR ''-''
                    then (if 2 ^ 63 < i then Inl ValueOutOfRange else Inr (- i, rest))
                    else (if 2 ^ 63 \<le> i then Inl ValueOutOfRange else Inr (i, rest)))))"

text \<open>
  The outcome of \<open>fmt.Sscanf(datr, "SF%dBW%d", &tx.Datarate, &bw)\<close>: an error before
  anything was stored, an error after the first operand was stored, or both operands.
  Input left after the second number is not read.
\<close>

datatype scanned =
    Scanned0 scan_error
  | Scanned1 "32 word" scan_error
  | Scanned2 "32 word" int

definition Sscanf_SF_BW :: "string \<Rightarrow> scanned" where
  "Sscanf_SF_BW datr =
     (case literal (CHR ''S'') datr of Inl e \<Rightarrow> Scanned0 e
      | Inr s1 \<Rightarrow>
     (case literal (CHR ''F'') s1 of Inl e \<Rightarrow> Scanned0 e
      | Inr s2 \<Rightarrow>
     (case scanUint32 s2 of Inl e \<Rightarrow> Scanned0 e
      | Inr (sf, s3) \<Rightarrow>
     (case literal (CHR ''B'') s3 of Inl e \<Rightarrow> Scanned1 sf e
      | Inr s4 \<Rightarrow>
     (case literal (CHR ''W'') s4 of Inl e \<Rightarrow> Scanned1 sf e
      | Inr s5 \<Rightarrow>
     (case scanInt s5 of Inl e \<Rightarrow> Scanned1 sf e
      | Inr (bw, _) \<Rightarrow> Scanned2 sf bw))))))"

section \<open>TxPacket and its decoder\<close>

record TxPacket =
  Immediate :: bool
  CountUs :: "32 word"
  TimeGPS :: time_Time
  Freq :: "32 word"
  Power :: "8 word"
  ChainRF :: "8 word"
  Modulation :: string
  LoRaBW :: "8 word"
  LoRaCR :: "8 word"
  InvertPolar :: bool
  Datarate :: "32 word"
  PreambleLength :: "16 word"
  NoCRC :: bool
  FreqDev :: "8 word"
  Data :: "byte list"

text \<open>The anonymous struct of the local variable \<open>txpk\<close>, with the JSON tags as comments.\<close>

record txpk =
  Immediate :: bool  \<comment> \<open>imme\<close>
  CountUs :: "32 word"  \<comment> \<open>tmst\<close>
  TimeGPS :: "64 word"  \<comment> \<open>tmms\<close>
  NoCRC :: bool  \<comment> \<open>ncrc\<close>
  Freq :: real  \<comment> \<open>freq\<close>
  ChainRF :: "8 word"  \<comment> \<open>rfch\<close>
  Power :: "8 word"  \<comment> \<open>powe\<close>
  Modulation :: string  \<comment> \<open>modu\<close>
  Datarate :: iface  \<comment> \<open>datr\<close>
  Coderate :: string  \<comment> \<open>codr\<close>
  InvertPolar :: bool  \<comment> \<open>ipol\<close>
  PreambleLength :: "16 word"  \<comment> \<open>prea\<close>
  FreqDev :: real  \<comment> \<open>fdev\<close>
  Data :: string  \<comment> \<open>data\<close>

text \<open>The composite literal \<open>struct{...}{}\<close>: every field has its zero value.\<close>

definition txpk_zero :: txpk where
  "txpk_zero =
     \<lparr>txpk.Immediate = False, txpk.CountUs = 0, txpk.TimeGPS = 0, txpk.NoCRC = False,
      txpk.Freq = 0, txpk.ChainRF = 0, txpk.Power = 0, txpk.Modulation = [],
      txpk.Datarate = INil, txpk.Coderate = [], txpk.InvertPolar = False,
      txpk.PreambleLength = 0, txpk.FreqDev = 0, txpk.Data = []\<rparr>"

text \<open>The errors built with \<open>fmt.Errorf\<close>, one constructor per message, with its operands.\<close>

datatype error =
    DatarateNotString iface  \<comment> \<open>can not parse lora datarate (not a string)\<close>
  | DatarateNoParse string scan_error  \<comment> \<open>can not parse lora datarate\<close>
  | UnknownBandwidth string int  \<comment> \<open>unknown bandwidth\<close>
  | UnknownCoderate string  \<comment> \<open>can not parse lora coderate\<close>
  | DatarateNotNumber iface  \<comment> \<open>can not parse lora datarate (not a number)\<close>
  | UnknownModulation string  \<comment> \<open>unknown modulation\<close>
  | DataNoDecode b64_error  \<comment> \<open>can not decode data\<close>

text \<open>The \<open>switch bw\<close>: the value assigned to \<open>tx.LoRaBW\<close>, or the default branch.\<close>

definition switch_bw :: "int \<Rightarrow> 8 word option" where
  "switch_bw bw =
     (if bw = 7 then Some 1
      else if bw = 10 then Some 2
      else if bw = 15 then Some 3
      else if bw = 20 then Some 4
      else if bw = 31 then Some 5
      else if bw = 41 then Some 6
      else if bw = 62 then Some 7
      else if bw = 128 then Some 8
      else if bw = 250 then Some 9
      else if bw = 500 then Some 10
      else None)"

text \<open>The \<open>switch txpk.Coderate\<close>: the value assigned to \<open>tx.LoRaCR\<close>, or the default.\<close>

definition switch_Coderate :: "string \<Rightarrow> 8 word option" where
  "switch_Coderate codr =
     (if codr = ''4/5'' then Some 5
      else if codr = ''4/6'' \<or> codr = ''2/3'' then Some 6
      else if codr = ''4/7'' then Some 7
      else if codr = ''4/8'' \<or> codr = ''2/4'' \<or> codr = ''1/2'' then Some 8
      else None)"

text \<open>
  The branch \<open>case "LORA"\<close>.  Sscanf writes through \<open>&tx.Datarate\<close>, so the field is
  already changed when a later step fails.
\<close>

definition case_LORA :: "txpk \<Rightarrow> TxPacket \<Rightarrow> TxPacket \<times> error option" where
  "case_LORA w tx0 =
     (let tx = tx0\<lparr>TxPacket.Modulation := ''LORA''\<rparr> in
      case txpk.Datarate w of
        IString datr \<Rightarrow>
          (case Sscanf_SF_BW datr of
             Scanned0 e \<Rightarrow> (tx, Some (DatarateNoParse datr e))
           | Scanned1 sf e \<Rightarrow> (tx\<lparr>TxPacket.Datarate := sf\<rparr>, Some (DatarateNoParse datr e))
           | Scanned2 sf bw \<Rightarrow>
               (let tx = tx\<lparr>TxPacket.Datarate := sf\<rparr> in
                case switch_bw bw of
                  None \<Rightarrow> (tx, Some (UnknownBandwidth datr bw))
                | Some b \<Rightarrow>
                    (let tx = tx\<lparr>TxPacket.LoRaBW := b\<rparr> in
                     case switch_Coderate (txpk.Coderate w) of
                       None \<Rightarrow> (tx, Some (UnknownCoderate (txpk.Coderate w)))
                     | Some c \<Rightarrow>
                         (tx\<lparr>TxPacket.LoRaCR := c,
                             TxPacket.InvertPolar := txpk.InvertPolar w,
                             TxPacket.PreambleLength := txpk.PreambleLength w\<rparr>, None))))
      | v \<Rightarrow> (tx, Some (DatarateNotString v)))"

text \<open>The branch \<open>case "FSK"\<close>.\<close>

definition case_FSK :: "golib \<Rightarrow> txpk \<Rightarrow> TxPacket \<Rightarrow> TxPacket \<times> error option" where
  "case_FSK L w tx0 =
     (let tx = tx0\<lparr>TxPacket.Modulation := ''FSK''\<rparr> in
      case txpk.Datarate w of
        IFloat64 datr \<Rightarrow>
          (tx\<lparr>TxPacket.Datarate := uint32_of_float L datr,
              TxPacket.FreqDev := uint8_of_quotient L (txpk.FreqDev w) 1000,
              TxPacket.PreambleLength := txpk.PreambleLength w\<rparr>, None)
      | v \<Rightarrow> (tx, Some (DatarateNotNumber v)))"

text \<open>The six assignments before the switch.\<close>

definition plain_fields :: "golib \<Rightarrow> txpk \<Rightarrow> TxPacket \<Rightarrow> TxPacket" where
  "plain_fields L w tx =
     tx\<lparr>TxPacket.Immediate := txpk.Immediate w,
        TxPacket.CountUs := txpk.CountUs w,
        TxPacket.NoCRC := txpk.NoCRC w,
        TxPacket.Freq := uint32_of_product L (txpk.Freq w) 1000000,
        TxPacket.ChainRF := txpk.ChainRF w,
        TxPacket.Power := txpk.Power w\<rparr>"

text \<open>The \<open>switch txpk.Modulation\<close>; an error is a return from the function.\<close>

definition switch_Modulation :: "golib \<Rightarrow> txpk \<Rightarrow> TxPacket \<Rightarrow> TxPacket \<times> error option" where
  "switch_Modulation L w tx =
     (if txpk.Modulation w = ''LORA'' then case_LORA w tx
      else if txpk.Modulation w = ''FSK'' then case_FSK L w tx
      else (tx, Some (UnknownModulation (txpk.Modulation w))))"

text \<open>The payload, after the switch.\<close>

definition decode_Data :: "golib \<Rightarrow> txpk \<Rightarrow> TxPacket \<Rightarrow> TxPacket \<times> error option" where
  "decode_Data L w tx =
     (case base64_DecodeString L (txpk.Data w) of
        Inl e \<Rightarrow> (tx, Some (DataNoDecode e))
      | Inr data \<Rightarrow> (tx\<lparr>TxPacket.Data := data\<rparr>, None))"

text \<open>
  The statements of \<open>UnarshalJSON\<close> after the declaration of \<open>txpk\<close>, for any content
  \<open>w\<close> of that variable.  The receiver is passed in and returned with the error
  (\<open>None\<close> is \<open>nil\<close>).
\<close>

definition UnarshalJSON_body :: "golib \<Rightarrow> txpk \<Rightarrow> TxPacket \<Rightarrow> TxPacket \<times> error option" where
  "UnarshalJSON_body L w tx0 =
     (let r = switch_Modulation L w (plain_fields L w tx0)
      in case snd r of
           Some e \<Rightarrow> r
         | None \<Rightarrow> decode_Data L w (fst r))"

text \<open>
  \<open>func (tx *TxPacket) UnarshalJSON([]byte) error\<close>: the byte slice has no name and the
  body never refers to it; \<open>txpk\<close> is the zero struct when the assignments run.
\<close>

definition UnarshalJSON :: "golib \<Rightarrow> byte list \<Rightarrow> TxPacket \<Rightarrow> TxPacket \<times> error option" where
  "UnarshalJSON L b tx = UnarshalJSON_body L txpk_zero tx"

section \<open>RxPacket and its encoder\<close>

record RxPacket =
  Time :: time_Time
  CountUs :: "32 word"
  Freq :: "32 word"
  ChainIF :: "8 word"
  ChainRF :: "8 word"
  StatCRC :: "8 word"  \<comment> \<open>int8: read with \<open>sint\<close>\<close>
  Modulation :: string
  LoRaBW :: "8 word"
  LoRaCR :: "8 word"
  Datarate :: "32 word"
  RSSI :: real
  LoRaSNR :: real
  Data :: "byte list"

definition bwStr :: "string list" where
  "bwStr = ['''', ''BW7.8'', ''BW10.4'', ''BW15.6'', ''BW20.8'', ''BW31.2'', ''BW41.7'',
            ''BW62.5'', ''BW125'', ''BW250'', ''BW500'']"

text \<open>The verb \<open>%d\<close>: decimal digits, with a minus sign for a negative value.\<close>

function decimal :: "nat \<Rightarrow> string" where
  "decimal n =
     (if n < 10 then [''0123456789'' ! n]
      else decimal (n div 10) @ [''0123456789'' ! (n mod 10)])"
  by pat_completeness auto
termination
  by (relation "measure id") auto

declare decimal.simps [simp del]

definition fmt_d :: "int \<Rightarrow> string" where
  "fmt_d i = (if i < 0 then CHR ''-'' # decimal (nat (- i)) else decimal (nat i))"

text \<open>Indexing a slice out of range is a run-time panic.\<close>

datatype panic = IndexOutOfRange nat nat

text \<open>
  \<open>MarshalJSON\<close>: the buffer after each \<open>Fprintf\<close>, in the order of the source.  The
  result is the panic of \<open>bwStr[rx.LoRaBW]\<close>, or the bytes of the buffer with a nil error.
\<close>

definition MarshalJSON :: "golib \<Rightarrow> RxPacket \<Rightarrow> panic + (byte list \<times> error option)" where
  \<open>MarshalJSON L rx =
     (let buf = [];
          buf = buf @ ''{"tmst":'' @ fmt_d (uint (RxPacket.CountUs rx));
          buf = buf @ '',"time":"'' @ time_Format_RFC3339 L (RxPacket.Time rx) @ ''"'';
          buf = buf @ '',"chan":'' @ fmt_d (uint (RxPacket.ChainIF rx));
          buf = buf @ '',"rfch":'' @ fmt_d (uint (RxPacket.ChainRF rx));
          buf = buf @ '',"freq":'' @ fmt_f L 6 (real (unat (RxPacket.Freq rx)) / 1000000);
          buf = buf @ '',"stat":'' @ fmt_d (sint (RxPacket.StatCRC rx));
          r = (if RxPacket.Modulation rx = ''LORA'' then
                 (let buf = buf @ '',"modu":"LORA"'' in
                  if unat (RxPacket.LoRaBW rx) < length bwStr then
                    (let buf = buf @ '',"datr":"SF'' @ fmt_d (uint (RxPacket.Datarate rx))
                                   @ bwStr ! unat (RxPacket.LoRaBW rx) @ ''"'';
                         buf = buf @ '',"codr":"4/'' @ fmt_d (uint (RxPacket.LoRaCR rx)) @ ''"'';
                         buf = buf @ '',"lsnr":'' @ fmt_f L 1 (RxPacket.LoRaSNR rx)
                     in Inr buf)
                  else Inl (IndexOutOfRange (unat (RxPacket.LoRaBW rx)) (length bwStr)))
               else
                 (let buf = buf @ '',"modu":"FSK"'';
                      buf = buf @ '',"datr":'' @ fmt_d (uint (RxPacket.Datarate rx))
                  in Inr buf))
      in case r of
           Inl p \<Rightarrow> Inl p
         | Inr buf \<Rightarrow>
             (let buf = buf @ '',"rssi":'' @ fmt_f L 0 (RxPacket.RSSI rx);
                  buf = buf @ '',"size":'' @ fmt_d (int (length (RxPacket.Data rx)));
                  buf = buf @ '',"data":"'' @ base64_EncodeToString L (RxPacket.Data rx) @ ''"}''
              in Inr (bytes_of buf, None)))\<close>

section \<open>The wire object as the specification describes it\<close>

text \<open>
  A flat JSON object: a sequence of members whose values are scalars, either a bare token
  (a number) or a string between double quotes.
\<close>

datatype scalar = Bare string | Quoted string

fun render_scalar :: "scalar \<Rightarrow> string" where
  \<open>render_scalar (Bare s) = s\<close>
| \<open>render_scalar (Quoted s) = ''"'' @ s @ ''"''\<close>

definition render_member :: "string \<times> scalar \<Rightarrow> string" where
  \<open>render_member m = ''"'' @ fst m @ ''":'' @ render_scalar (snd m)\<close>

fun join_commas :: "string list \<Rightarrow> string" where
  "join_commas [] = []"
| "join_commas [x] = x"
| "join_commas (x # y # ys) = x @ '','' @ join_commas (y # ys)"

definition flat_object :: "(string \<times> scalar) list \<Rightarrow> string" where
  "flat_object ms = ''{'' @ join_commas (map render_member ms) @ ''}''"

text \<open>The members of the receive report, for the LoRa layout and for the FSK layout.\<close>

definition members :: "golib \<Rightarrow> RxPacket \<Rightarrow> (string \<times> scalar) list" where
  "members L rx =
     [(''tmst'', Bare (fmt_d (uint (RxPacket.CountUs rx)))),
      (''time'', Quoted (time_Format_RFC3339 L (RxPacket.Time rx))),
      (''chan'', Bare (fmt_d (uint (RxPacket.ChainIF rx)))),
      (''rfch'', Bare (fmt_d (uint (RxPacket.ChainRF rx)))),
      (''freq'', Bare (fmt_f L 6 (real (unat (RxPacket.Freq rx)) / 1000000))),
      (''stat'', Bare (fmt_d (sint (RxPacket.StatCRC rx))))]
     @ (if RxPacket.Modulation rx = ''LORA'' then
          [(''modu'', Quoted ''LORA''),
           (''datr'', Quoted (''SF'' @ fmt_d (uint (RxPacket.Datarate rx))
                               @ bwStr ! unat (RxPacket.LoRaBW rx))),
           (''codr'', Quoted (''4/'' @ fmt_d (uint (RxPacket.LoRaCR rx)))),
           (''lsnr'', Bare (fmt_f L 1 (RxPacket.LoRaSNR rx)))]
        else
          [(''modu'', Quoted ''FSK''),
           (''datr'', Bare (fmt_d (uint (RxPacket.Datarate rx))))])
     @ [(''rssi'', Bare (fmt_f L 0 (RxPacket.RSSI rx))),
        (''size'', Bare (fmt_d (int (length (RxPacket.Data rx))))),
        (''data'', Quoted (base64_EncodeToString L (RxPacket.Data rx)))]"

text \<open>The bandwidth labels of the Enumeration Table, by code.\<close>

definition table_label :: "nat \<Rightarrow> string" where
  "table_label c =
     (if c = 1 then ''7.8'' else if c = 2 then ''10.4'' else if c = 3 then ''15.6''
      else if c = 4 then ''20.8'' else if c = 5 then ''31.2'' else if c = 6 then ''41.7''
      else if c = 7 then ''62.5'' else if c = 8 then ''125'' else if c = 9 then ''250''
      else if c = 10 then ''500'' else [])"

text \<open>
  The integer that \<open>%d\<close> reads from a label of the table: its digits up to the decimal
  point.
\<close>

definition label_int :: "nat \<Rightarrow> int" where
  "label_int c =
     (if c = 1 then 7 else if c = 2 then 10 else if c = 3 then 15 else if c = 4 then 20
      else if c = 5 then 31 else if c = 6 then 41 else if c = 7 then 62 else if c = 8 then 125
      else if c = 9 then 250 else if c = 10 then 500 else 0)"

section \<open>Values for evaluating the model\<close>

text \<open>
  A library instance: what the Go library returns on the empty payload, the zero
  \<open>time.Time\<close> and the number 0 (with the precisions 0, 1 and 6 that the package uses).
  The examples reach none of the three float parameters.
\<close>

definition lib_sample :: golib where
  "lib_sample =
     \<lparr>base64_DecodeString = (\<lambda>s. Inr []),
      base64_EncodeToString = (\<lambda>bs. []),
      time_Format_RFC3339 = (\<lambda>t. ''0001-01-01T00:00:00Z''),
      fmt_f = (\<lambda>p x. if p = 0 then ''0'' else if p = 1 then ''0.0'' else ''0.000000''),
      uint32_float64_mul = (\<lambda>x y. 0),
      uint32_float64_unfit = (\<lambda>x. 0),
      uint8_float32_div = (\<lambda>x y. 0)\<rparr>"

text \<open>A fresh receiver (\<open>var tx TxPacket\<close>) and one that still holds an earlier command.\<close>

definition TxPacket_zero :: TxPacket where
  "TxPacket_zero =
     \<lparr>TxPacket.Immediate = False, TxPacket.CountUs = 0, TxPacket.TimeGPS = MkTime 0 0 0,
      TxPacket.Freq = 0, TxPacket.Power = 0, TxPacket.ChainRF = 0, TxPacket.Modulation = [],
      TxPacket.LoRaBW = 0, TxPacket.LoRaCR = 0, TxPacket.InvertPolar = False,
      TxPacket.Datarate = 0, TxPacket.PreambleLength = 0, TxPacket.NoCRC = False,
      TxPacket.FreqDev = 0, TxPacket.Data = []\<rparr>"

definition tx_earlier :: TxPacket where
  "tx_earlier =
     \<lparr>TxPacket.Immediate = True, TxPacket.CountUs = 5000000, TxPacket.TimeGPS = MkTime 0 0 0,
      TxPacket.Freq = 868100000, TxPacket.Power = 14, TxPacket.ChainRF = 1,
      TxPacket.Modulation = ''LORA'', TxPacket.LoRaBW = 8, TxPacket.LoRaCR = 5,
      TxPacket.InvertPolar = True, TxPacket.Datarate = 7, TxPacket.PreambleLength = 8,
      TxPacket.NoCRC = True, TxPacket.FreqDev = 0, TxPacket.Data = [1, 2, 3]\<rparr>"

text \<open>
  The content JSON decoding would give \<open>txpk\<close> for a LoRa command with the given
  \<open>datr\<close> and \<open>codr\<close>, and for an FSK command with the given \<open>datr\<close> and \<open>fdev\<close>
  (the other members absent, \<open>data\<close> empty).
\<close>

definition wire_lora :: "string \<Rightarrow> string \<Rightarrow> txpk" where
  "wire_lora datr codr =
     txpk_zero\<lparr>txpk.Modulation := ''LORA'', txpk.Datarate := IString datr,
               txpk.Coderate := codr\<rparr>"

definition wire_fsk :: "iface \<Rightarrow> real \<Rightarrow> txpk" where
  "wire_fsk datr fdev =
     txpk_zero\<lparr>txpk.Modulation := ''FSK'', txpk.Datarate := datr, txpk.FreqDev := fdev\<rparr>"

text \<open>A LoRa receive report with spreading factor 7, coding rate 4/5 and the given bandwidth code.\<close>

definition rx_lora :: "8 word \<Rightarrow> RxPacket" where
  "rx_lora bw =
     \<lparr>RxPacket.Time = MkTime 0 0 0, RxPacket.CountUs = 0, RxPacket.Freq = 0,
      RxPacket.ChainIF = 0, RxPacket.ChainRF = 0, RxPacket.StatCRC = 1,
      RxPacket.Modulation = ''LORA'', RxPacket.LoRaBW = bw, RxPacket.LoRaCR = 5,
      RxPacket.Datarate = 7, RxPacket.RSSI = 0, RxPacket.LoRaSNR = 0, RxPacket.Data = []\<rparr>"

text \<open>An FSK receive report at 50000 bits per second.\<close>

definition rx_fsk :: RxPacket where
  "rx_fsk = (rx_lora 0)\<lparr>RxPacket.Modulation := ''FSK'', RxPacket.Datarate := 50000\<rparr>"

section \<open>What the decoder leaves alone\<close>

lemma case_LORA_frame:
  "TxPacket.Data (fst (case_LORA w tx)) = TxPacket.Data tx \<and>
   TxPacket.TimeGPS (fst (case_LORA w tx)) = TxPacket.TimeGPS tx \<and>
   TxPacket.Immediate (fst (case_LORA w tx)) = TxPacket.Immediate tx \<and>
   TxPacket.CountUs (fst (case_LORA w tx)) = TxPacket.CountUs tx \<and>
   TxPacket.NoCRC (fst (case_LORA w tx)) = TxPacket.NoCRC tx \<and>
   TxPacket.Freq (fst (case_LORA w tx)) = TxPacket.Freq tx \<and>
   TxPacket.ChainRF (fst (case_LORA w tx)) = TxPacket.ChainRF tx \<and>
   TxPacket.Power (fst (case_LORA w tx)) = TxPacket.Power tx \<and>
   TxPacket.FreqDev (fst (case_LORA w tx)) = TxPacket.FreqDev tx"
  by (simp add: case_LORA_def Let_def split: iface.splits scanned.splits option.splits)

lemma case_LORA_error_frame:
  "snd (case_LORA w tx) = Some e \<Longrightarrow>
   TxPacket.LoRaCR (fst (case_LORA w tx)) = TxPacket.LoRaCR tx \<and>
   TxPacket.InvertPolar (fst (case_LORA w tx)) = TxPacket.InvertPolar tx \<and>
   TxPacket.PreambleLength (fst (case_LORA w tx)) = TxPacket.PreambleLength tx"
  by (simp add: case_LORA_def Let_def split: iface.splits scanned.splits option.splits)

lemma case_FSK_frame:
  "TxPacket.Data (fst (case_FSK L w tx)) = TxPacket.Data tx \<and>
   TxPacket.TimeGPS (fst (case_FSK L w tx)) = TxPacket.TimeGPS tx \<and>
   TxPacket.Immediate (fst (case_FSK L w tx)) = TxPacket.Immediate tx \<and>
   TxPacket.CountUs (fst (case_FSK L w tx)) = TxPacket.CountUs tx \<and>
   TxPacket.NoCRC (fst (case_FSK L w tx)) = TxPacket.NoCRC tx \<and>
   TxPacket.Freq (fst (case_FSK L w tx)) = TxPacket.Freq tx \<and>
   TxPacket.ChainRF (fst (case_FSK L w tx)) = TxPacket.ChainRF tx \<and>
   TxPacket.Power (fst (case_FSK L w tx)) = TxPacket.Power tx \<and>
   TxPacket.LoRaBW (fst (case_FSK L w tx)) = TxPacket.LoRaBW tx \<and>
   TxPacket.LoRaCR (fst (case_FSK L w tx)) = TxPacket.LoRaCR tx \<and>
   TxPacket.InvertPolar (fst (case_FSK L w tx)) = TxPacket.InvertPolar tx"
  by (simp add: case_FSK_def Let_def split: iface.splits)

lemma case_FSK_error_frame:
  "snd (case_FSK L w tx) = Some e \<Longrightarrow>
   TxPacket.Datarate (fst (case_FSK L w tx)) = TxPacket.Datarate tx \<and>
   TxPacket.FreqDev (fst (case_FSK L w tx)) = TxPacket.FreqDev tx \<and>
   TxPacket.PreambleLength (fst (case_FSK L w tx)) = TxPacket.PreambleLength tx"
  by (simp add: case_FSK_def Let_def split: iface.splits)

lemma switch_Modulation_frame:
  "TxPacket.Data (fst (switch_Modulation L w tx)) = TxPacket.Data tx \<and>
   TxPacket.TimeGPS (fst (switch_Modulation L w tx)) = TxPacket.TimeGPS tx \<and>
   TxPacket.Immediate (fst (switch_Modulation L w tx)) = TxPacket.Immediate tx \<and>
   TxPacket.CountUs (fst (switch_Modulation L w tx)) = TxPacket.CountUs tx \<and>
   TxPacket.NoCRC (fst (switch_Modulation L w tx)) = TxPacket.NoCRC tx \<and>
   TxPacket.Freq (fst (switch_Modulation L w tx)) = TxPacket.Freq tx \<and>
   TxPacket.ChainRF (fst (switch_Modulation L w tx)) = TxPacket.ChainRF tx \<and>
   TxPacket.Power (fst (switch_Modulation L w tx)) = TxPacket.Power tx"
  by (simp add: switch_Modulation_def case_LORA_frame case_FSK_frame)

lemma switch_Modulation_error_frame:
  "snd (switch_Modulation L w tx) = Some e \<Longrightarrow>
   TxPacket.LoRaCR (fst (switch_Modulation L w tx)) = TxPacket.LoRaCR tx \<and>
   TxPacket.InvertPolar (fst (switch_Modulation L w tx)) = TxPacket.InvertPolar tx \<and>
   TxPacket.PreambleLength (fst (switch_Modulation L w tx)) = TxPacket.PreambleLength tx \<and>
   TxPacket.FreqDev (fst (switch_Modulation L w tx)) = TxPacket.FreqDev tx"
  by (simp add: switch_Modulation_def case_LORA_frame case_LORA_error_frame case_FSK_frame
      case_FSK_error_frame split: if_splits)

lemma decode_Data_frame:
  "TxPacket.TimeGPS (fst (decode_Data L w tx)) = TxPacket.TimeGPS tx \<and>
   TxPacket.Immediate (fst (decode_Data L w tx)) = TxPacket.Immediate tx \<and>
   TxPacket.CountUs (fst (decode_Data L w tx)) = TxPacket.CountUs tx \<and>
   TxPacket.NoCRC (fst (decode_Data L w tx)) = TxPacket.NoCRC tx \<and>
   TxPacket.Freq (fst (decode_Data L w tx)) = TxPacket.Freq tx \<and>
   TxPacket.ChainRF (fst (decode_Data L w tx)) = TxPacket.ChainRF tx \<and>
   TxPacket.Power (fst (decode_Data L w tx)) = TxPacket.Power tx"
  by (simp add: decode_Data_def split: sum.splits)

lemma decode_Data_error:
  "snd (decode_Data L w tx) = Some e \<Longrightarrow>
   fst (decode_Data L w tx) = tx \<and> (\<exists>d. e = DataNoDecode d)"
  by (auto simp add: decode_Data_def split: sum.splits)

lemma body_TimeGPS:
  "TxPacket.TimeGPS (fst (UnarshalJSON_body L w tx)) = TxPacket.TimeGPS tx"
  by (simp add: UnarshalJSON_body_def Let_def plain_fields_def switch_Modulation_frame
      decode_Data_frame split: option.splits)

lemma body_plain_fields:
  "TxPacket.Immediate (fst (UnarshalJSON_body L w tx)) = txpk.Immediate w \<and>
   TxPacket.CountUs (fst (UnarshalJSON_body L w tx)) = txpk.CountUs w \<and>
   TxPacket.NoCRC (fst (UnarshalJSON_body L w tx)) = txpk.NoCRC w \<and>
   TxPacket.Freq (fst (UnarshalJSON_body L w tx)) = uint32_of_product L (txpk.Freq w) 1000000 \<and>
   TxPacket.ChainRF (fst (UnarshalJSON_body L w tx)) = txpk.ChainRF w \<and>
   TxPacket.Power (fst (UnarshalJSON_body L w tx)) = txpk.Power w"
  by (simp add: UnarshalJSON_body_def Let_def plain_fields_def switch_Modulation_frame
      decode_Data_frame split: option.splits)

lemma body_error_Data:
  assumes "snd (UnarshalJSON_body L w tx) = Some e"
  shows "TxPacket.Data (fst (UnarshalJSON_body L w tx)) = TxPacket.Data tx"
proof (cases "snd (switch_Modulation L w (plain_fields L w tx))")
  case None
  with assms have "snd (decode_Data L w (fst (switch_Modulation L w (plain_fields L w tx)))) = Some e"
    by (simp add: UnarshalJSON_body_def Let_def)
  then have "fst (decode_Data L w (fst (switch_Modulation L w (plain_fields L w tx))))
      = fst (switch_Modulation L w (plain_fields L w tx))"
    by (simp add: decode_Data_error)
  with None show ?thesis
    by (simp add: UnarshalJSON_body_def Let_def switch_Modulation_frame plain_fields_def)
next
  case (Some e')
  then show ?thesis
    by (simp add: UnarshalJSON_body_def Let_def switch_Modulation_frame plain_fields_def)
qed

lemma body_error_late_fields:
  assumes "snd (UnarshalJSON_body L w tx) = Some e" and "\<forall>d. e \<noteq> DataNoDecode d"
  shows "TxPacket.LoRaCR (fst (UnarshalJSON_body L w tx)) = TxPacket.LoRaCR tx \<and>
         TxPacket.InvertPolar (fst (UnarshalJSON_body L w tx)) = TxPacket.InvertPolar tx \<and>
         TxPacket.PreambleLength (fst (UnarshalJSON_body L w tx)) = TxPacket.PreambleLength tx \<and>
         TxPacket.FreqDev (fst (UnarshalJSON_body L w tx)) = TxPacket.FreqDev tx"
proof (cases "snd (switch_Modulation L w (plain_fields L w tx))")
  case None
  with assms(1) have "snd (decode_Data L w (fst (switch_Modulation L w (plain_fields L w tx)))) = Some e"
    by (simp add: UnarshalJSON_body_def Let_def)
  then have "\<exists>d. e = DataNoDecode d"
    by (simp add: decode_Data_error)
  with assms(2) show ?thesis by blast
next
  case (Some e')
  then have "UnarshalJSON_body L w tx = switch_Modulation L w (plain_fields L w tx)"
    by (simp add: UnarshalJSON_body_def Let_def)
  with Some show ?thesis
    using switch_Modulation_error_frame [of L w "plain_fields L w tx" e']
    by (simp add: plain_fields_def)
qed

text \<open>
  The function as written: \<open>txpk\<close> holds zero values, the switch takes its default branch
  on the empty modulation string, and the six assignments before it have run.
\<close>

lemma UnarshalJSON_result:
  "UnarshalJSON L b tx =
     (tx\<lparr>TxPacket.Immediate := False, TxPacket.CountUs := 0, TxPacket.NoCRC := False,
         TxPacket.Freq := 0, TxPacket.ChainRF := 0, TxPacket.Power := 0\<rparr>,
      Some (UnknownModulation []))"
  by (simp add: UnarshalJSON_def UnarshalJSON_body_def switch_Modulation_def plain_fields_def
      txpk_zero_def uint32_of_product_def)

section \<open>Scanning a decimal number that \<open>%d\<close> printed\<close>

lemma digit_char_isDigit: "k < 10 \<Longrightarrow> isDigit (''0123456789'' ! k)"
  unfolding isDigit_def by (rule nth_mem) simp

lemma digit_char_val: "k < 10 \<Longrightarrow> of_char (''0123456789'' ! k) - 48 = k"
proof -
  assume "k < 10"
  then have "k = 0 \<or> k = 1 \<or> k = 2 \<or> k = 3 \<or> k = 4 \<or> k = 5 \<or> k = 6 \<or> k = 7 \<or> k = 8 \<or> k = 9"
    by arith
  then show ?thesis by (elim disjE) simp_all
qed

lemma decimal_digit: "n < 10 \<Longrightarrow> decimal n = [''0123456789'' ! n]"
  by (simp add: decimal.simps)

lemma decimal_nonempty: "decimal n \<noteq> []"
  by (subst decimal.simps) simp

lemma decimal_all_digits: "\<forall>c \<in> set (decimal n). isDigit c"
proof (induction n rule: decimal.induct)
  case (1 n)
  show ?case
  proof (cases "n < 10")
    case True
    then show ?thesis by (subst decimal.simps) (simp add: digit_char_isDigit)
  next
    case False
    with 1 show ?thesis by (subst decimal.simps) (simp add: digit_char_isDigit)
  qed
qed

lemma digits_val_snoc: "digits_val (xs @ [c]) = 10 * digits_val xs + (of_char c - 48)"
  by (simp add: digits_val_def)

lemma digits_val_decimal: "digits_val (decimal n) = n"
proof (induction n rule: decimal.induct)
  case (1 n)
  show ?case
  proof (cases "n < 10")
    case True
    then show ?thesis by (subst decimal.simps) (simp add: digits_val_def digit_char_val)
  next
    case False
    with 1 have "digits_val (decimal (n div 10)) = n div 10" by simp
    with False show ?thesis
      by (subst decimal.simps) (simp add: digits_val_snoc digit_char_val)
  qed
qed

lemma takeWhile_decimal:
  "\<not> isDigit c \<Longrightarrow> takeWhile isDigit (decimal n @ c # r) = decimal n"
  using decimal_all_digits [of n] by (simp add: takeWhile_append2)

lemma dropWhile_decimal:
  "\<not> isDigit c \<Longrightarrow> dropWhile isDigit (decimal n @ c # r) = c # r"
  using decimal_all_digits [of n] by (simp add: dropWhile_append2)

lemma space_len_digit:
  assumes "isDigit c"
  shows "space_len (c # r) = 0"
proof -
  have ne: "c \<noteq> CHR 0x09" "c \<noteq> CHR 0x0B" "c \<noteq> CHR 0x0C" "c \<noteq> CHR 0x0D" "c \<noteq> CHR 0x20"
    "c \<noteq> CHR 0xC2" "c \<noteq> CHR 0xE1" "c \<noteq> CHR 0xE2" "c \<noteq> CHR 0xE3"
    using assms by (auto simp add: isDigit_def)
  show ?thesis
    by (simp add: space_len_def ne)
qed

lemma SkipSpace_digit:
  assumes "isDigit c"
  shows "SkipSpace (c # r) = Inr (c # r)"
proof -
  have "c \<noteq> CHR 0x0A"
    using assms by (auto simp add: isDigit_def)
  then show ?thesis
    by (subst SkipSpace.simps) (simp add: space_len_digit [OF assms])
qed

lemma scanUint32_decimal:
  assumes "n < 2 ^ 32" and "\<not> isDigit c"
  shows "scanUint32 (decimal n @ c # r) = Inr (of_nat n, c # r)"
proof -
  obtain d ds where d: "decimal n = d # ds"
    using decimal_nonempty [of n] by (cases "decimal n") auto
  with decimal_all_digits [of n] have dd: "isDigit d" by simp
  have sk: "SkipSpace (decimal n @ c # r) = Inr (decimal n @ c # r)"
    using SkipSpace_digit [OF dd, of "ds @ c # r"] d by simp
  have "scanNumber (d # (ds @ c # r)) =
      Inr (takeWhile isDigit (d # (ds @ c # r)), dropWhile isDigit (d # (ds @ c # r)))"
    using dd by (simp add: scanNumber_def del: takeWhile.simps dropWhile.simps)
  then have "scanNumber (decimal n @ c # r) =
      Inr (takeWhile isDigit (decimal n @ c # r), dropWhile isDigit (decimal n @ c # r))"
    using d by simp
  then have sn: "scanNumber (decimal n @ c # r) = Inr (decimal n, c # r)"
    using takeWhile_decimal [OF assms(2), of n r] dropWhile_decimal [OF assms(2), of n r]
    by simp
  have lt: "\<not> (2::nat) ^ 64 \<le> n" "\<not> (2::nat) ^ 32 \<le> n"
    using assms(1) by simp_all
  show ?thesis
    using lt by (simp add: scanUint32_def sk sn digits_val_decimal)
qed

lemma scanInt_table_label:
  assumes "1 \<le> c" and "c \<le> 10"
  shows "\<exists>rest. scanInt (table_label c) = Inr (label_int c, rest)"
proof -
  from assms have "c = 1 \<or> c = 2 \<or> c = 3 \<or> c = 4 \<or> c = 5 \<or> c = 6 \<or> c = 7 \<or> c = 8 \<or> c = 9 \<or> c = 10"
    by arith
  then show ?thesis
    by (elim disjE)
      (simp_all add: table_label_def label_int_def scanInt_def scanNumber_def isDigit_def
        digits_val_def space_len_def SkipSpace.simps)
qed

text \<open>
  A \<open>datr\<close> string made of a spreading factor and a label of the table scans to the
  spreading factor and the integer part of the label.
\<close>

lemma Sscanf_SF_BW_table:
  assumes "n < 2 ^ 32" and "1 \<le> c" and "c \<le> 10"
  shows "Sscanf_SF_BW (''SF'' @ decimal n @ ''BW'' @ table_label c) =
         Scanned2 (of_nat n) (label_int c)"
proof -
  have nd: "\<not> isDigit (CHR ''B'')"
    by (simp add: isDigit_def)
  have u: "scanUint32 (decimal n @ CHR ''B'' # CHR ''W'' # table_label c) =
      Inr (of_nat n, CHR ''B'' # CHR ''W'' # table_label c)"
    by (rule scanUint32_decimal [OF assms(1) nd])
  obtain rest where i: "scanInt (table_label c) = Inr (label_int c, rest)"
    using scanInt_table_label [OF assms(2) assms(3)] by blast
  show ?thesis
    by (simp add: Sscanf_SF_BW_def literal_def u i)
qed

lemma switch_bw_label:
  assumes "1 \<le> c" and "c \<le> 10"
  shows "switch_bw (label_int c) = (if c = 8 then None else Some (of_nat c))"
proof -
  from assms have "c = 1 \<or> c = 2 \<or> c = 3 \<or> c = 4 \<or> c = 5 \<or> c = 6 \<or> c = 7 \<or> c = 8 \<or> c = 9 \<or> c = 10"
    by arith
  then show ?thesis
    by (elim disjE) (simp_all add: label_int_def switch_bw_def)
qed

section \<open>The statements after the declaration, on a populated \<open>txpk\<close>\<close>

lemma switch_bw_cases:
  "switch_bw 7 = Some 1 \<and> switch_bw 10 = Some 2 \<and> switch_bw 15 = Some 3 \<and>
   switch_bw 20 = Some 4 \<and> switch_bw 31 = Some 5 \<and> switch_bw 41 = Some 6 \<and>
   switch_bw 62 = Some 7 \<and> switch_bw 128 = Some 8 \<and> switch_bw 250 = Some 9 \<and>
   switch_bw 500 = Some 10 \<and> switch_bw 125 = None \<and> switch_bw 999 = None"
  by (simp add: switch_bw_def)

lemma switch_Coderate_aliases:
  "switch_Coderate ''4/5'' = Some 5 \<and> switch_Coderate ''4/6'' = Some 6 \<and>
   switch_Coderate ''2/3'' = Some 6 \<and> switch_Coderate ''4/7'' = Some 7 \<and>
   switch_Coderate ''4/8'' = Some 8 \<and> switch_Coderate ''2/4'' = Some 8 \<and>
   switch_Coderate ''1/2'' = Some 8"
  by (simp add: switch_Coderate_def)

lemma switch_Coderate_None:
  "(switch_Coderate codr = None) =
   (codr \<notin> set [''4/5'', ''4/6'', ''2/3'', ''4/7'', ''4/8'', ''2/4'', ''1/2''])"
  by (simp add: switch_Coderate_def)

lemma body_lora_not_string:
  assumes "txpk.Modulation w = ''LORA''" and "\<forall>s. txpk.Datarate w \<noteq> IString s"
  shows "snd (UnarshalJSON_body L w tx) = Some (DatarateNotString (txpk.Datarate w))"
  using assms
  by (cases "txpk.Datarate w")
    (simp_all add: UnarshalJSON_body_def switch_Modulation_def case_LORA_def Let_def)

lemma body_lora_no_parse:
  assumes "txpk.Modulation w = ''LORA''" and "txpk.Datarate w = IString datr"
    and "Sscanf_SF_BW datr = Scanned0 e"
  shows "snd (UnarshalJSON_body L w tx) = Some (DatarateNoParse datr e)"
  using assms
  by (simp add: UnarshalJSON_body_def switch_Modulation_def case_LORA_def Let_def)

lemma body_lora_unknown_bandwidth:
  assumes "txpk.Modulation w = ''LORA''" and "txpk.Datarate w = IString datr"
    and "Sscanf_SF_BW datr = Scanned2 sf bw" and "switch_bw bw = None"
  shows "snd (UnarshalJSON_body L w tx) = Some (UnknownBandwidth datr bw) \<and>
         TxPacket.LoRaBW (fst (UnarshalJSON_body L w tx)) = TxPacket.LoRaBW tx"
  using assms
  by (simp add: UnarshalJSON_body_def switch_Modulation_def case_LORA_def plain_fields_def
      Let_def)

lemma body_lora_bandwidth:
  assumes "txpk.Modulation w = ''LORA''" and "txpk.Datarate w = IString datr"
    and "Sscanf_SF_BW datr = Scanned2 sf bw" and "switch_bw bw = Some b"
  shows "TxPacket.LoRaBW (fst (UnarshalJSON_body L w tx)) = b \<and>
         TxPacket.Datarate (fst (UnarshalJSON_body L w tx)) = sf"
  using assms
  by (simp add: UnarshalJSON_body_def switch_Modulation_def case_LORA_def decode_Data_def
      Let_def split: option.splits sum.splits)

lemma body_lora_unknown_coderate:
  assumes "txpk.Modulation w = ''LORA''" and "txpk.Datarate w = IString datr"
    and "Sscanf_SF_BW datr = Scanned2 sf bw" and "switch_bw bw = Some b"
    and "switch_Coderate (txpk.Coderate w) = None"
  shows "snd (UnarshalJSON_body L w tx) = Some (UnknownCoderate (txpk.Coderate w))"
  using assms
  by (simp add: UnarshalJSON_body_def switch_Modulation_def case_LORA_def Let_def)

lemma body_lora_coderate:
  assumes "txpk.Modulation w = ''LORA''" and "txpk.Datarate w = IString datr"
    and "Sscanf_SF_BW datr = Scanned2 sf bw" and "switch_bw bw = Some b"
    and "switch_Coderate (txpk.Coderate w) = Some c"
  shows "TxPacket.LoRaCR (fst (UnarshalJSON_body L w tx)) = c \<and>
         snd (UnarshalJSON_body L w tx) =
           (case base64_DecodeString L (txpk.Data w) of
              Inl e \<Rightarrow> Some (DataNoDecode e) | Inr d \<Rightarrow> None)"
  using assms
  by (simp add: UnarshalJSON_body_def switch_Modulation_def case_LORA_def decode_Data_def
      Let_def split: sum.splits)

text \<open>
  With \<open>txpk\<close> populated, every bandwidth of the table except 125 gets its code, 125 is
  refused, and 128, which the table does not have, gets code 8.
\<close>

lemma body_table_bandwidth:
  assumes "n < 2 ^ 32" and "1 \<le> c" and "c \<le> 10" and "c \<noteq> 8"
  shows "TxPacket.LoRaBW (fst (UnarshalJSON_body L
           (wire_lora (''SF'' @ decimal n @ ''BW'' @ table_label c) codr) tx)) = of_nat c"
proof -
  have s: "Sscanf_SF_BW (''SF'' @ decimal n @ ''BW'' @ table_label c) =
      Scanned2 (of_nat n) (label_int c)"
    by (rule Sscanf_SF_BW_table [OF assms(1) assms(2) assms(3)])
  have b: "switch_bw (label_int c) = Some (of_nat c)"
    using switch_bw_label [OF assms(2) assms(3)] assms(4) by simp
  have m: "txpk.Modulation (wire_lora (''SF'' @ decimal n @ ''BW'' @ table_label c) codr) = ''LORA''"
    and d: "txpk.Datarate (wire_lora (''SF'' @ decimal n @ ''BW'' @ table_label c) codr) =
      IString (''SF'' @ decimal n @ ''BW'' @ table_label c)"
    by (simp_all add: wire_lora_def)
  show ?thesis
    using body_lora_bandwidth [OF m d s b] by simp
qed

lemma body_BW125_refused:
  assumes "n < 2 ^ 32"
  shows "snd (UnarshalJSON_body L (wire_lora (''SF'' @ decimal n @ ''BW125'') codr) tx) =
         Some (UnknownBandwidth (''SF'' @ decimal n @ ''BW125'') 125)"
proof -
  have "Sscanf_SF_BW (''SF'' @ decimal n @ ''BW'' @ table_label 8) =
      Scanned2 (of_nat n) (label_int 8)"
    by (rule Sscanf_SF_BW_table [OF assms]) simp_all
  then have s: "Sscanf_SF_BW (''SF'' @ decimal n @ ''BW125'') = Scanned2 (of_nat n) 125"
    by (simp add: table_label_def label_int_def)
  have b: "switch_bw 125 = None"
    by (simp add: switch_bw_def)
  have m: "txpk.Modulation (wire_lora (''SF'' @ decimal n @ ''BW125'') codr) = ''LORA''"
    and d: "txpk.Datarate (wire_lora (''SF'' @ decimal n @ ''BW125'') codr) =
      IString (''SF'' @ decimal n @ ''BW125'')"
    by (simp_all add: wire_lora_def)
  show ?thesis
    using body_lora_unknown_bandwidth [OF m d s b] by simp
qed

lemma Sscanf_SF7BW128: "Sscanf_SF_BW ''SF7BW128'' = Scanned2 7 128"
  by (simp add: Sscanf_SF_BW_def literal_def scanUint32_def scanInt_def scanNumber_def
      isDigit_def digits_val_def space_len_def SkipSpace.simps)

lemma body_BW128_accepted:
  "TxPacket.LoRaBW (fst (UnarshalJSON_body L (wire_lora ''SF7BW128'' codr) tx)) = 8"
proof -
  have b: "switch_bw 128 = Some 8"
    by (simp add: switch_bw_def)
  have m: "txpk.Modulation (wire_lora ''SF7BW128'' codr) = ''LORA''"
    and d: "txpk.Datarate (wire_lora ''SF7BW128'' codr) = IString ''SF7BW128''"
    by (simp_all add: wire_lora_def)
  show ?thesis
    using body_lora_bandwidth [OF m d Sscanf_SF7BW128 b] by simp
qed

lemma Sscanf_SF7BW999: "Sscanf_SF_BW ''SF7BW999'' = Scanned2 7 999"
  by (simp add: Sscanf_SF_BW_def literal_def scanUint32_def scanInt_def scanNumber_def
      isDigit_def digits_val_def space_len_def SkipSpace.simps)

lemma body_BW999_refused:
  "snd (UnarshalJSON_body L (wire_lora ''SF7BW999'' codr) tx) =
   Some (UnknownBandwidth ''SF7BW999'' 999)"
proof -
  have b: "switch_bw 999 = None"
    by (simp add: switch_bw_def)
  have m: "txpk.Modulation (wire_lora ''SF7BW999'' codr) = ''LORA''"
    and d: "txpk.Datarate (wire_lora ''SF7BW999'' codr) = IString ''SF7BW999''"
    by (simp_all add: wire_lora_def)
  show ?thesis
    using body_lora_unknown_bandwidth [OF m d Sscanf_SF7BW999 b] by simp
qed

lemma Sscanf_SF7BW250: "Sscanf_SF_BW ''SF7BW250'' = Scanned2 7 250"
  by (simp add: Sscanf_SF_BW_def literal_def scanUint32_def scanInt_def scanNumber_def
      isDigit_def digits_val_def space_len_def SkipSpace.simps)

text \<open>With \<open>txpk\<close> populated, the aliases of a coding rate give its code.\<close>

lemma body_codr_alias:
  assumes "switch_Coderate codr = Some c"
  shows "TxPacket.LoRaCR (fst (UnarshalJSON_body L (wire_lora ''SF7BW250'' codr) tx)) = c"
proof -
  have b: "switch_bw 250 = Some 9"
    by (simp add: switch_bw_def)
  have m: "txpk.Modulation (wire_lora ''SF7BW250'' codr) = ''LORA''"
    and d: "txpk.Datarate (wire_lora ''SF7BW250'' codr) = IString ''SF7BW250''"
    and k: "txpk.Coderate (wire_lora ''SF7BW250'' codr) = codr"
    by (simp_all add: wire_lora_def)
  show ?thesis
    using body_lora_coderate [OF m d Sscanf_SF7BW250 b, of c L tx] assms k by simp
qed

lemma body_codr_unknown:
  assumes "codr \<notin> set [''4/5'', ''4/6'', ''2/3'', ''4/7'', ''4/8'', ''2/4'', ''1/2'']"
  shows "snd (UnarshalJSON_body L (wire_lora ''SF7BW250'' codr) tx) = Some (UnknownCoderate codr)"
proof -
  have b: "switch_bw 250 = Some 9"
    by (simp add: switch_bw_def)
  have m: "txpk.Modulation (wire_lora ''SF7BW250'' codr) = ''LORA''"
    and d: "txpk.Datarate (wire_lora ''SF7BW250'' codr) = IString ''SF7BW250''"
    and k: "txpk.Coderate (wire_lora ''SF7BW250'' codr) = codr"
    by (simp_all add: wire_lora_def)
  have n: "switch_Coderate (txpk.Coderate (wire_lora ''SF7BW250'' codr)) = None"
    using assms k by (simp add: switch_Coderate_None)
  show ?thesis
    using body_lora_unknown_coderate [OF m d Sscanf_SF7BW250 b n, of L tx] k by simp
qed

text \<open>With \<open>txpk\<close> populated, an FSK \<open>datr\<close> that is not a number is a type error.\<close>

lemma body_fsk_not_number:
  assumes "txpk.Modulation w = ''FSK''" and "\<forall>x. txpk.Datarate w \<noteq> IFloat64 x"
  shows "snd (UnarshalJSON_body L w tx) = Some (DatarateNotNumber (txpk.Datarate w)) \<and>
         TxPacket.Datarate (fst (UnarshalJSON_body L w tx)) = TxPacket.Datarate tx"
  using assms
  by (cases "txpk.Datarate w")
    (simp_all add: UnarshalJSON_body_def switch_Modulation_def case_FSK_def plain_fields_def
      Let_def)

lemma body_fsk_number:
  assumes "txpk.Modulation w = ''FSK''" and "txpk.Datarate w = IFloat64 x"
  shows "TxPacket.FreqDev (fst (UnarshalJSON_body L w tx)) =
           uint8_of_quotient L (txpk.FreqDev w) 1000 \<and>
         TxPacket.Datarate (fst (UnarshalJSON_body L w tx)) = uint32_of_float L x"
  using assms
  by (simp add: UnarshalJSON_body_def switch_Modulation_def case_FSK_def decode_Data_def
      Let_def split: sum.splits)

lemma body_fsk_datr_50000:
  "TxPacket.Datarate (fst (UnarshalJSON_body L (wire_fsk (IFloat64 50000) 25000) tx)) = 50000"
proof -
  have m: "txpk.Modulation (wire_fsk (IFloat64 50000) 25000) = ''FSK''"
    and d: "txpk.Datarate (wire_fsk (IFloat64 50000) 25000) = IFloat64 50000"
    by (simp_all add: wire_fsk_def)
  show ?thesis
    using body_fsk_number [OF m d, of L tx]
    by (simp add: uint32_of_float_def float_trunc_def)
qed

section \<open>The encoder's output as a flat object\<close>

lemma length_bwStr: "length bwStr = 11"
  by (simp add: bwStr_def)

lemma bwStr_label: "1 \<le> c \<Longrightarrow> c \<le> 10 \<Longrightarrow> bwStr ! c = ''BW'' @ table_label c"
proof -
  assume "1 \<le> c" "c \<le> 10"
  then have "c = 1 \<or> c = 2 \<or> c = 3 \<or> c = 4 \<or> c = 5 \<or> c = 6 \<or> c = 7 \<or> c = 8 \<or> c = 9 \<or> c = 10"
    by arith
  then show ?thesis
    by (elim disjE) (simp_all add: bwStr_def table_label_def)
qed

lemma MarshalJSON_members:
  assumes "RxPacket.Modulation rx = ''LORA'' \<longrightarrow> unat (RxPacket.LoRaBW rx) \<le> 10"
  shows "MarshalJSON L rx = Inr (bytes_of (flat_object (members L rx)), None)"
proof (cases "RxPacket.Modulation rx = ''LORA''")
  case True
  with assms have "unat (RxPacket.LoRaBW rx) < 11" by simp
  with True show ?thesis
    by (simp add: MarshalJSON_def members_def flat_object_def render_member_def length_bwStr Let_def)
next
  case False
  then show ?thesis
    by (simp add: MarshalJSON_def members_def flat_object_def render_member_def Let_def)
qed

lemma MarshalJSON_panic:
  assumes "RxPacket.Modulation rx = ''LORA''" and "10 < unat (RxPacket.LoRaBW rx)"
  shows "MarshalJSON L rx = Inl (IndexOutOfRange (unat (RxPacket.LoRaBW rx)) 11)"
  using assms by (simp add: MarshalJSON_def length_bwStr Let_def)

lemma members_keys_LORA:
  "RxPacket.Modulation rx = ''LORA'' \<Longrightarrow>
   map fst (members L rx) =
     [''tmst'', ''time'', ''chan'', ''rfch'', ''freq'', ''stat'', ''modu'',
      ''datr'', ''codr'', ''lsnr'', ''rssi'', ''size'', ''data'']"
  by (simp add: members_def)

lemma members_keys_FSK:
  "RxPacket.Modulation rx \<noteq> ''LORA'' \<Longrightarrow>
   map fst (members L rx) =
     [''tmst'', ''time'', ''chan'', ''rfch'', ''freq'', ''stat'', ''modu'',
      ''datr'', ''rssi'', ''size'', ''data'']"
  by (simp add: members_def)

lemma members_datr_LORA:
  "RxPacket.Modulation rx = ''LORA'' \<Longrightarrow>
   map_of (members L rx) ''datr'' =
     Some (Quoted (''SF'' @ fmt_d (uint (RxPacket.Datarate rx)) @ bwStr ! unat (RxPacket.LoRaBW rx)))"
  by (simp add: members_def)

lemma members_datr_FSK:
  "RxPacket.Modulation rx \<noteq> ''LORA'' \<Longrightarrow>
   map_of (members L rx) ''datr'' = Some (Bare (fmt_d (uint (RxPacket.Datarate rx))))"
  by (simp add: members_def)

lemma members_codr_LORA:
  "RxPacket.Modulation rx = ''LORA'' \<Longrightarrow>
   map_of (members L rx) ''codr'' = Some (Quoted (''4/'' @ fmt_d (uint (RxPacket.LoRaCR rx))))"
  by (simp add: members_def)

text \<open>The encoder writes the coding rate 6 of a LoRa packet as 4/6.\<close>

lemma MarshalJSON_codr_6:
  assumes "RxPacket.Modulation rx = ''LORA''" and "unat (RxPacket.LoRaBW rx) \<le> 10"
    and "RxPacket.LoRaCR rx = 6"
  shows "MarshalJSON L rx = Inr (bytes_of (flat_object (members L rx)), None) \<and>
         map_of (members L rx) ''codr'' = Some (Quoted ''4/6'')"
proof
  from assms(2) show "MarshalJSON L rx = Inr (bytes_of (flat_object (members L rx)), None)"
    by (intro MarshalJSON_members) simp
next
  from assms(1,3) show "map_of (members L rx) ''codr'' = Some (Quoted ''4/6'')"
    by (simp add: members_codr_LORA fmt_d_def decimal_digit)
qed

section \<open>The specification's properties, C1 to C10\<close>

text \<open>
  C1.  The specification says: a LoRa command whose \<open>datr\<close> is \<open>SF<n>BW<b>\<close>, with \<open>b\<close> a bandwidth of
  the table, decodes, and the packet's bandwidth code is the table's code for \<open>b\<close>.  On the
  command with \<open>SF7BW125\<close> the function returns the unknown-modulation error for the
  empty string and leaves \<open>LoRaBW\<close> as it was; and the statements after the declaration
  of \<open>txpk\<close>, run on the content that JSON decoding would give it, return the
  unknown-bandwidth error for 125, where the table has code 8.
\<close>

theorem C1_SF7BW125_not_decoded:
  \<open>snd (UnarshalJSON L
          (bytes_of ''{"modu":"LORA","datr":"SF7BW125","codr":"4/5","data":""}'') tx)
     = Some (UnknownModulation [])
   \<and> TxPacket.LoRaBW (fst (UnarshalJSON L
          (bytes_of ''{"modu":"LORA","datr":"SF7BW125","codr":"4/5","data":""}'') tx))
     = TxPacket.LoRaBW tx
   \<and> snd (UnarshalJSON_body L (wire_lora ''SF7BW125'' ''4/5'') tx)
     = Some (UnknownBandwidth ''SF7BW125'' 125)\<close>
proof -
  have "(7::nat) < 2 ^ 32" by simp
  from body_BW125_refused [OF this, of L "''4/5''" tx]
  have "snd (UnarshalJSON_body L (wire_lora ''SF7BW125'' ''4/5'') tx)
      = Some (UnknownBandwidth ''SF7BW125'' 125)"
    by (simp add: decimal_digit)
  then show ?thesis
    by (simp add: UnarshalJSON_result)
qed

text \<open>
  C2.  For every input byte slice \<open>UnarshalJSON\<close> returns the same result: the
  unknown-modulation error for the empty modulation string, with the receiver's
  \<open>Immediate\<close>, \<open>CountUs\<close>, \<open>NoCRC\<close>, \<open>Freq\<close>, \<open>ChainRF\<close> and \<open>Power\<close> set from the zero
  values of the wire struct.  Two inputs cannot be told apart by the result.
\<close>

theorem C2_same_result_for_every_input:
  "UnarshalJSON L b tx =
     (tx\<lparr>TxPacket.Immediate := False, TxPacket.CountUs := 0, TxPacket.NoCRC := False,
         TxPacket.Freq := 0, TxPacket.ChainRF := 0, TxPacket.Power := 0\<rparr>,
      Some (UnknownModulation []))
   \<and> UnarshalJSON L b tx = UnarshalJSON L b' tx"
  by (simp add: UnarshalJSON_result)

text \<open>
  C3.  The specification says: when decoding returns an error the receiver is left
  unchanged.  A receiver that still holds an earlier command is changed by a call that
  returns an error: its \<open>Immediate\<close> flag, among others, is cleared.
\<close>

theorem C3_receiver_changed_on_error:
  \<open>snd (UnarshalJSON lib_sample (bytes_of ''{"imme":true,"modu":"GFSK"}'') tx_earlier)
     = Some (UnknownModulation [])
   \<and> fst (UnarshalJSON lib_sample (bytes_of ''{"imme":true,"modu":"GFSK"}'') tx_earlier)
     \<noteq> tx_earlier
   \<and> TxPacket.Immediate tx_earlier
   \<and> TxPacket.Immediate
        (fst (UnarshalJSON lib_sample (bytes_of ''{"imme":true,"modu":"GFSK"}'') tx_earlier))
     = False\<close>
  by (simp add: UnarshalJSON_result tx_earlier_def)

text \<open>
  C3, as the code has it.  When the statements after the declaration of \<open>txpk\<close> end in
  an error, whatever \<open>txpk\<close> holds (the zero struct of the function as written
  included), the receiver's payload and GPS time are unchanged; \<open>Immediate\<close>,
  \<open>CountUs\<close>, \<open>NoCRC\<close>, \<open>Freq\<close>, \<open>ChainRF\<close> and \<open>Power\<close> have been overwritten from
  the wire struct; and unless the error is the payload's, \<open>LoRaCR\<close>, \<open>InvertPolar\<close>,
  \<open>PreambleLength\<close> and \<open>FreqDev\<close> are unchanged too.
\<close>

theorem C3_error_frame:
  assumes "snd (UnarshalJSON_body L w tx) = Some e"
  shows "TxPacket.Data (fst (UnarshalJSON_body L w tx)) = TxPacket.Data tx \<and>
         TxPacket.TimeGPS (fst (UnarshalJSON_body L w tx)) = TxPacket.TimeGPS tx \<and>
         TxPacket.Immediate (fst (UnarshalJSON_body L w tx)) = txpk.Immediate w \<and>
         TxPacket.CountUs (fst (UnarshalJSON_body L w tx)) = txpk.CountUs w \<and>
         TxPacket.NoCRC (fst (UnarshalJSON_body L w tx)) = txpk.NoCRC w \<and>
         TxPacket.Freq (fst (UnarshalJSON_body L w tx)) = uint32_of_product L (txpk.Freq w) 1000000 \<and>
         TxPacket.ChainRF (fst (UnarshalJSON_body L w tx)) = txpk.ChainRF w \<and>
         TxPacket.Power (fst (UnarshalJSON_body L w tx)) = txpk.Power w \<and>
         ((\<forall>d. e \<noteq> DataNoDecode d) \<longrightarrow>
            TxPacket.LoRaCR (fst (UnarshalJSON_body L w tx)) = TxPacket.LoRaCR tx \<and>
            TxPacket.InvertPolar (fst (UnarshalJSON_body L w tx)) = TxPacket.InvertPolar tx \<and>
            TxPacket.PreambleLength (fst (UnarshalJSON_body L w tx)) = TxPacket.PreambleLength tx \<and>
            TxPacket.FreqDev (fst (UnarshalJSON_body L w tx)) = TxPacket.FreqDev tx)"
proof -
  have a: "TxPacket.Data (fst (UnarshalJSON_body L w tx)) = TxPacket.Data tx"
    by (rule body_error_Data [OF assms])
  have b: "TxPacket.TimeGPS (fst (UnarshalJSON_body L w tx)) = TxPacket.TimeGPS tx"
    by (rule body_TimeGPS)
  have c: "(\<forall>d. e \<noteq> DataNoDecode d) \<longrightarrow>
      TxPacket.LoRaCR (fst (UnarshalJSON_body L w tx)) = TxPacket.LoRaCR tx \<and>
      TxPacket.InvertPolar (fst (UnarshalJSON_body L w tx)) = TxPacket.InvertPolar tx \<and>
      TxPacket.PreambleLength (fst (UnarshalJSON_body L w tx)) = TxPacket.PreambleLength tx \<and>
      TxPacket.FreqDev (fst (UnarshalJSON_body L w tx)) = TxPacket.FreqDev tx"
    using body_error_late_fields [OF assms] by blast
  from a b c body_plain_fields [of L w tx] show ?thesis
    by blast
qed

text \<open>
  C3, evaluated: on the function as written, called on a receiver that holds an earlier
  command, and on a LoRa command with the coding rate 5/6, which the switch does not know.
  The earlier payload and coding rate stay; the earlier \<open>Immediate\<close> and \<open>Freq\<close> do not.
\<close>

theorem C3_error_frame_witness:
  \<open>snd (UnarshalJSON lib_sample (bytes_of ''{"imme":true,"modu":"GFSK"}'') tx_earlier)
     = Some (UnknownModulation []) \<and>
   TxPacket.Data (fst (UnarshalJSON lib_sample (bytes_of ''{"imme":true,"modu":"GFSK"}'')
     tx_earlier)) = [1, 2, 3] \<and>
   TxPacket.LoRaCR (fst (UnarshalJSON lib_sample (bytes_of ''{"imme":true,"modu":"GFSK"}'')
     tx_earlier)) = 5 \<and>
   TxPacket.Immediate (fst (UnarshalJSON lib_sample (bytes_of ''{"imme":true,"modu":"GFSK"}'')
     tx_earlier)) = False \<and>
   TxPacket.Freq (fst (UnarshalJSON lib_sample (bytes_of ''{"imme":true,"modu":"GFSK"}'')
     tx_earlier)) = 0 \<and>
   snd (UnarshalJSON_body lib_sample (wire_lora ''SF7BW250'' ''5/6'') tx_earlier)
     = Some (UnknownCoderate ''5/6'') \<and>
   TxPacket.Data (fst (UnarshalJSON_body lib_sample (wire_lora ''SF7BW250'' ''5/6'') tx_earlier))
     = [1, 2, 3] \<and>
   TxPacket.LoRaCR (fst (UnarshalJSON_body lib_sample (wire_lora ''SF7BW250'' ''5/6'') tx_earlier))
     = 5 \<and>
   TxPacket.Immediate (fst (UnarshalJSON_body lib_sample (wire_lora ''SF7BW250'' ''5/6'') tx_earlier))
     = False\<close>
proof -
  have h1: "snd (UnarshalJSON_body lib_sample txpk_zero tx_earlier) = Some (UnknownModulation [])"
    using UnarshalJSON_result [of lib_sample "[]" tx_earlier] by (simp add: UnarshalJSON_def)
  have h2: "snd (UnarshalJSON_body lib_sample (wire_lora ''SF7BW250'' ''5/6'') tx_earlier)
      = Some (UnknownCoderate ''5/6'')"
    by (rule body_codr_unknown) simp
  show ?thesis
    using h1 h2 C3_error_frame [OF h1] C3_error_frame [OF h2]
    by (simp add: UnarshalJSON_def tx_earlier_def txpk_zero_def wire_lora_def
        uint32_of_product_def)
qed

text \<open>
  C4.  The specification says: a LoRa packet whose bandwidth code is outside 1..10, the reserved 0
  included, makes the encoder panic or return an error.  With code 0 the encoder returns
  these bytes and a nil error; the \<open>datr\<close> member has no bandwidth label.
\<close>

theorem C4_code_0_is_emitted:
  \<open>MarshalJSON lib_sample (rx_lora 0) =
     Inr (bytes_of ''{"tmst":0,"time":"0001-01-01T00:00:00Z","chan":0,"rfch":0,"freq":0.000000,"stat":1,"modu":"LORA","datr":"SF7","codr":"4/5","lsnr":0.0,"rssi":0,"size":0,"data":""}'',
          None)\<close>
  by (simp add: MarshalJSON_def rx_lora_def lib_sample_def length_bwStr bwStr_def fmt_d_def
      decimal_digit Let_def)

text \<open>
  C4, as the code has it.  For a LoRa packet with a bandwidth code above 10 the encoder
  panics on the index into \<open>bwStr\<close> and emits nothing.  With code 0 it does not fail: the
  output is the flat object whose \<open>datr\<close> member is \<open>SF<sf>\<close> with the empty entry of the
  table appended.
\<close>

theorem C4_bandwidth_outside_table:
  assumes "RxPacket.Modulation rx = ''LORA''"
  shows "(10 < unat (RxPacket.LoRaBW rx) \<longrightarrow>
            MarshalJSON L rx = Inl (IndexOutOfRange (unat (RxPacket.LoRaBW rx)) 11)) \<and>
         (RxPacket.LoRaBW rx = 0 \<longrightarrow>
            MarshalJSON L rx = Inr (bytes_of (flat_object (members L rx)), None) \<and>
            map_of (members L rx) ''datr'' =
              Some (Quoted (''SF'' @ fmt_d (uint (RxPacket.Datarate rx)))))"
proof (intro conjI impI)
  assume "10 < unat (RxPacket.LoRaBW rx)"
  with assms show "MarshalJSON L rx = Inl (IndexOutOfRange (unat (RxPacket.LoRaBW rx)) 11)"
    by (rule MarshalJSON_panic)
next
  assume z: "RxPacket.LoRaBW rx = 0"
  then show "MarshalJSON L rx = Inr (bytes_of (flat_object (members L rx)), None)"
    by (intro MarshalJSON_members) simp
next
  assume z: "RxPacket.LoRaBW rx = 0"
  with assms show "map_of (members L rx) ''datr'' =
      Some (Quoted (''SF'' @ fmt_d (uint (RxPacket.Datarate rx))))"
    by (simp add: members_datr_LORA bwStr_def)
qed

text \<open>C4, evaluated on a LoRa packet with code 11 and on one with code 0.\<close>

theorem C4_bandwidth_outside_table_witness:
  "RxPacket.Modulation (rx_lora 11) = ''LORA'' \<and> 10 < unat (RxPacket.LoRaBW (rx_lora 11)) \<and>
   MarshalJSON lib_sample (rx_lora 11) = Inl (IndexOutOfRange 11 11) \<and>
   RxPacket.Modulation (rx_lora 0) = ''LORA'' \<and> RxPacket.LoRaBW (rx_lora 0) = 0 \<and>
   map_of (members lib_sample (rx_lora 0)) ''datr'' = Some (Quoted ''SF7'')"
proof -
  have m11: "RxPacket.Modulation (rx_lora 11) = ''LORA''"
    and m0: "RxPacket.Modulation (rx_lora 0) = ''LORA''"
    by (simp_all add: rx_lora_def)
  have b11: "10 < unat (RxPacket.LoRaBW (rx_lora 11))"
    and b0: "RxPacket.LoRaBW (rx_lora 0) = 0"
    by (simp_all add: rx_lora_def)
  have u11: "unat (RxPacket.LoRaBW (rx_lora 11)) = 11"
    by (simp add: rx_lora_def)
  have d: "fmt_d (uint (RxPacket.Datarate (rx_lora 0))) = ''7''"
    by (simp add: rx_lora_def fmt_d_def decimal_digit)
  show ?thesis
    using m11 m0 b11 b0 u11 d
      C4_bandwidth_outside_table [OF m11, of lib_sample]
      C4_bandwidth_outside_table [OF m0, of lib_sample]
    by simp
qed

text \<open>
  C5.  For every bandwidth code \<open>c\<close> in 1..10 and every LoRa packet carrying it, the
  encoder's output is the flat object whose \<open>datr\<close> member is the string \<open>SF<sf>\<close>
  followed by \<open>BW\<close> and the table's label for \<open>c\<close>.
\<close>

theorem C5_datr_label:
  assumes "RxPacket.Modulation rx = ''LORA''"
    and "1 \<le> c" and "c \<le> 10" and "unat (RxPacket.LoRaBW rx) = c"
  shows "MarshalJSON L rx = Inr (bytes_of (flat_object (members L rx)), None) \<and>
         map_of (members L rx) ''datr'' =
           Some (Quoted (''SF'' @ fmt_d (uint (RxPacket.Datarate rx)) @ ''BW'' @ table_label c))"
proof
  from assms(3,4) show "MarshalJSON L rx = Inr (bytes_of (flat_object (members L rx)), None)"
    by (intro MarshalJSON_members) simp
next
  from assms show "map_of (members L rx) ''datr'' =
      Some (Quoted (''SF'' @ fmt_d (uint (RxPacket.Datarate rx)) @ ''BW'' @ table_label c))"
    by (simp add: members_datr_LORA bwStr_label)
qed

text \<open>C5, evaluated on LoRa packets with spreading factor 7 and the codes 8 and 1.\<close>

theorem C5_datr_label_witness:
  "RxPacket.Modulation (rx_lora 8) = ''LORA'' \<and> unat (RxPacket.LoRaBW (rx_lora 8)) = 8 \<and>
   map_of (members lib_sample (rx_lora 8)) ''datr'' = Some (Quoted ''SF7BW125'') \<and>
   RxPacket.Modulation (rx_lora 1) = ''LORA'' \<and> unat (RxPacket.LoRaBW (rx_lora 1)) = 1 \<and>
   map_of (members lib_sample (rx_lora 1)) ''datr'' = Some (Quoted ''SF7BW7.8'')"
proof -
  have m8: "RxPacket.Modulation (rx_lora 8) = ''LORA''"
    and m1: "RxPacket.Modulation (rx_lora 1) = ''LORA''"
    by (simp_all add: rx_lora_def)
  have b8: "unat (RxPacket.LoRaBW (rx_lora 8)) = 8"
    and b1: "unat (RxPacket.LoRaBW (rx_lora 1)) = 1"
    by (simp_all add: rx_lora_def)
  have r8: "(1::nat) \<le> 8" "(8::nat) \<le> 10" and r1: "(1::nat) \<le> 1" "(1::nat) \<le> 10"
    by simp_all
  have d: "fmt_d (uint (RxPacket.Datarate (rx_lora 8))) = ''7''"
    "fmt_d (uint (RxPacket.Datarate (rx_lora 1))) = ''7''"
    by (simp_all add: rx_lora_def fmt_d_def decimal_digit)
  show ?thesis
    using m8 m1 b8 b1 d
      C5_datr_label [OF m8 r8 b8, of lib_sample]
      C5_datr_label [OF m1 r1 b1, of lib_sample]
    by (simp add: table_label_def)
qed

text \<open>
  C6.  The specification says: the \<open>codr\<close> aliases 4/6 and 2/3 both decode to coding rate 6 (4/8, 2/4
  and 1/2 to 8), an unknown \<open>codr\<close> fails with the unknown-coding-rate error, and the
  encoder writes 6 as 4/6.  On the LoRa command with \<open>codr\<close> 2/3 the function returns
  the unknown-modulation error for the empty string and leaves \<open>LoRaCR\<close> as it was: 0 in
  a fresh receiver.
\<close>

theorem C6_codr_alias_not_decoded:
  \<open>snd (UnarshalJSON L
          (bytes_of ''{"modu":"LORA","datr":"SF7BW250","codr":"2/3","data":""}'') tx)
     = Some (UnknownModulation [])
   \<and> TxPacket.LoRaCR (fst (UnarshalJSON L
          (bytes_of ''{"modu":"LORA","datr":"SF7BW250","codr":"2/3","data":""}'') tx))
     = TxPacket.LoRaCR tx
   \<and> TxPacket.LoRaCR (fst (UnarshalJSON L
          (bytes_of ''{"modu":"LORA","datr":"SF7BW250","codr":"2/3","data":""}'') TxPacket_zero))
     = 0\<close>
  by (simp add: UnarshalJSON_result TxPacket_zero_def)

text \<open>
  C7.  The specification says: an FSK command whose \<open>datr\<close> is not a number fails with the type error.
  On the FSK command with the string "50000" for \<open>datr\<close> the function returns the
  unknown-modulation error for the empty string, which is not the error for a \<open>datr\<close>
  that is not a number.
\<close>

theorem C7_FSK_string_datr:
  \<open>snd (UnarshalJSON L
          (bytes_of ''{"modu":"FSK","datr":"50000","fdev":25000,"data":""}'') tx)
     = Some (UnknownModulation [])
   \<and> snd (UnarshalJSON L
          (bytes_of ''{"modu":"FSK","datr":"50000","fdev":25000,"data":""}'') tx)
     \<noteq> Some (DatarateNotNumber (IString ''50000''))\<close>
  by (simp add: UnarshalJSON_result)

text \<open>
  C8.  The specification says: for an FSK command the packet's frequency deviation is the wire \<open>fdev\<close>
  divided by 1000 and truncated to eight bits.  On the FSK command with \<open>fdev\<close> 25000
  the function leaves \<open>FreqDev\<close> as it was: 0 in a fresh receiver, where the
  specification gives 25.
\<close>

theorem C8_fdev_not_stored:
  \<open>TxPacket.FreqDev (fst (UnarshalJSON L
          (bytes_of ''{"modu":"FSK","datr":50000,"fdev":25000,"data":""}'') tx))
     = TxPacket.FreqDev tx
   \<and> TxPacket.FreqDev (fst (UnarshalJSON L
          (bytes_of ''{"modu":"FSK","datr":50000,"fdev":25000,"data":""}'') TxPacket_zero))
     = 0\<close>
  by (simp add: UnarshalJSON_result TxPacket_zero_def)

text \<open>
  C9.  The specification says: for every packet the encoder emits one flat object with
  its keys in a fixed order.  For a LoRa packet with the bandwidth code 255 the encoder
  panics on the index into \<open>bwStr\<close> and returns no bytes.
\<close>

theorem C9_code_255_panics:
  "MarshalJSON lib_sample (rx_lora 255) = Inl (IndexOutOfRange 255 11)"
  by (simp add: MarshalJSON_def rx_lora_def length_bwStr Let_def)

text \<open>
  C9, as the code has it.  For every packet that is not a LoRa packet with a bandwidth
  code above 10, the encoder returns one flat object: its members are scalars and their
  keys are, in this order, tmst, time, chan, rfch, freq, stat, modu, then datr, codr, lsnr
  for LoRa and datr alone, as a bare integer, otherwise, then rssi, size, data.
\<close>

theorem C9_key_order:
  assumes "RxPacket.Modulation rx = ''LORA'' \<longrightarrow> unat (RxPacket.LoRaBW rx) \<le> 10"
  shows "MarshalJSON L rx = Inr (bytes_of (flat_object (members L rx)), None) \<and>
         map fst (members L rx) =
           [''tmst'', ''time'', ''chan'', ''rfch'', ''freq'', ''stat'', ''modu'']
           @ (if RxPacket.Modulation rx = ''LORA'' then [''datr'', ''codr'', ''lsnr'']
              else [''datr''])
           @ [''rssi'', ''size'', ''data''] \<and>
         (RxPacket.Modulation rx \<noteq> ''LORA'' \<longrightarrow>
            map_of (members L rx) ''datr'' = Some (Bare (fmt_d (uint (RxPacket.Datarate rx)))))"
proof (intro conjI impI)
  show "MarshalJSON L rx = Inr (bytes_of (flat_object (members L rx)), None)"
    by (rule MarshalJSON_members [OF assms])
next
  show "map fst (members L rx) =
      [''tmst'', ''time'', ''chan'', ''rfch'', ''freq'', ''stat'', ''modu'']
      @ (if RxPacket.Modulation rx = ''LORA'' then [''datr'', ''codr'', ''lsnr'']
         else [''datr''])
      @ [''rssi'', ''size'', ''data'']"
    by (cases "RxPacket.Modulation rx = ''LORA''")
      (simp_all add: members_keys_LORA members_keys_FSK)
next
  assume "RxPacket.Modulation rx \<noteq> ''LORA''"
  then show "map_of (members L rx) ''datr'' = Some (Bare (fmt_d (uint (RxPacket.Datarate rx))))"
    by (rule members_datr_FSK)
qed

text \<open>C9, evaluated on a LoRa packet with code 8 and on an FSK packet: the bytes returned.\<close>

theorem C9_key_order_witness:
  \<open>RxPacket.Modulation (rx_lora 8) = ''LORA'' \<and> unat (RxPacket.LoRaBW (rx_lora 8)) \<le> 10 \<and>
   MarshalJSON lib_sample (rx_lora 8) =
     Inr (bytes_of ''{"tmst":0,"time":"0001-01-01T00:00:00Z","chan":0,"rfch":0,"freq":0.000000,"stat":1,"modu":"LORA","datr":"SF7BW125","codr":"4/5","lsnr":0.0,"rssi":0,"size":0,"data":""}'',
          None) \<and>
   RxPacket.Modulation rx_fsk \<noteq> ''LORA'' \<and>
   MarshalJSON lib_sample rx_fsk =
     Inr (bytes_of ''{"tmst":0,"time":"0001-01-01T00:00:00Z","chan":0,"rfch":0,"freq":0.000000,"stat":1,"modu":"FSK","datr":50000,"rssi":0,"size":0,"data":""}'',
          None)\<close>
proof -
  have h8: "RxPacket.Modulation (rx_lora 8) = ''LORA'' \<longrightarrow> unat (RxPacket.LoRaBW (rx_lora 8)) \<le> 10"
    by (simp add: rx_lora_def)
  have hf: "RxPacket.Modulation rx_fsk = ''LORA'' \<longrightarrow> unat (RxPacket.LoRaBW rx_fsk) \<le> 10"
    and nf: "RxPacket.Modulation rx_fsk \<noteq> ''LORA''"
    by (simp_all add: rx_fsk_def rx_lora_def)
  have o8: \<open>flat_object (members lib_sample (rx_lora 8)) =
      ''{"tmst":0,"time":"0001-01-01T00:00:00Z","chan":0,"rfch":0,"freq":0.000000,"stat":1,"modu":"LORA","datr":"SF7BW125","codr":"4/5","lsnr":0.0,"rssi":0,"size":0,"data":""}''\<close>
    by (simp add: flat_object_def members_def render_member_def rx_lora_def lib_sample_def
        bwStr_def fmt_d_def decimal_digit)
  have d5: "decimal 50000 = ''50000''"
    by (simp add: decimal.simps)
  have "fmt_d (uint (RxPacket.Datarate rx_fsk)) = ''50000''"
    by (simp add: rx_fsk_def rx_lora_def fmt_d_def d5)
  then have ofsk: \<open>flat_object (members lib_sample rx_fsk) =
      ''{"tmst":0,"time":"0001-01-01T00:00:00Z","chan":0,"rfch":0,"freq":0.000000,"stat":1,"modu":"FSK","datr":50000,"rssi":0,"size":0,"data":""}''\<close>
    using nf
    by (simp add: flat_object_def members_def render_member_def rx_fsk_def rx_lora_def
        lib_sample_def fmt_d_def decimal_digit)
  have m8: "RxPacket.Modulation (rx_lora 8) = ''LORA''"
    and b8: "unat (RxPacket.LoRaBW (rx_lora 8)) \<le> 10"
    by (simp_all add: rx_lora_def)
  show ?thesis
    using m8 b8 nf o8 ofsk
      C9_key_order [OF h8, of lib_sample] C9_key_order [OF hf, of lib_sample]
    by simp
qed

text \<open>
  C10.  For every input the decoder leaves the receiver's \<open>TimeGPS\<close> as it was; and so
  do the statements after the declaration of \<open>txpk\<close> for every content of it, whatever
  its \<open>tmms\<close> value: no statement assigns the field.
\<close>

theorem C10_TimeGPS_unchanged:
  "TxPacket.TimeGPS (fst (UnarshalJSON L b tx)) = TxPacket.TimeGPS tx \<and>
   TxPacket.TimeGPS (fst (UnarshalJSON_body L w tx)) = TxPacket.TimeGPS tx"
  by (simp add: UnarshalJSON_def body_TimeGPS)

end
